theory Spec2Isabelle
  imports Main
begin

section \<open>The call session: frontend/src/components/VideoCall.jsx\<close>

text \<open>
  The component is embedded as a state record and one state-passing function per
  handler. What the component does to the outside (the media tracks, the SimplePeer
  object, the socket, the \<open>onEnd\<close> callback of its parent, the console) is appended to
  a trace of calls, in the order the source makes them; nothing is assumed about what
  those primitives do in turn.
\<close>

subsection \<open>Data\<close>

datatype track_kind = AudioTrack | VideoTrack

record track =
  track_id :: nat
  kind :: track_kind
  enabled :: bool

record media_stream =
  stream_id :: nat
  tracks :: "track list"

record sock =
  connected :: bool

text \<open>The options object handed to \<open>new SimplePeer\<close>; \<open>stream\<close> is the stream's identity.\<close>

record peer =
  initiator :: bool
  trickle :: bool
  stream :: nat

type_synonym signal_data = string

datatype media_error = NotAllowedError | NotFoundError | OtherMediaError

datatype peer_error = ERR_WEBRTC_SUPPORT | OtherPeerError

text \<open>Payloads of the inbound socket events. A handler destructures the fields it
  names; whatever else the payload carries is the record's extension.\<close>

record incoming_call_payload =
  ic_signal :: signal_data
  ic_from_user_id :: string

record call_accepted_payload =
  ca_signal :: signal_data

record call_accepted_from_payload = call_accepted_payload +
  ca_from_user_id :: string

text \<open>\<open>candidate\<close> is tested for truthiness: an absent one (\<open>None\<close>) and the empty string
  are falsy.\<close>

record ice_candidate_payload =
  candidate :: "signal_data option"

datatype call_effect =
    Get_user_media bool
  | Peer_new bool nat
  | Peer_signal signal_data
  | Peer_destroy
  | Track_stop nat
  | Socket_emit_call_user string signal_data string
  | On_end
  | Console_error string

text \<open>
  Props (\<open>recipientId\<close>, \<open>callType\<close>, \<open>socket\<close>), the \<open>useState\<close> cells, the three refs
  and the trace. A video ref is \<open>None\<close> while no element is mounted, and otherwise holds
  the element's \<open>srcObject\<close> (a stream identity, if one was attached).
\<close>

record call_session =
  recipientId :: string
  callType :: string
  socket :: "sock option"
  localStream :: "media_stream option"
  remoteStream :: "media_stream option"
  isMuted :: bool
  isVideoOff :: bool
  localVideoRef :: "nat option option"
  remoteVideoRef :: "nat option option"
  peerRef :: "peer option"
  callStatus :: string
  trace :: "call_effect list"

subsection \<open>Operations\<close>

text \<open>The first render: the initial values of the \<open>useState\<close> and \<open>useRef\<close> calls.\<close>

definition mount :: "string \<Rightarrow> string \<Rightarrow> sock option \<Rightarrow> call_session" where
  "mount rid ctype so =
     \<lparr>recipientId = rid, callType = ctype, socket = so,
      localStream = None, remoteStream = None,
      isMuted = False, isVideoOff = (ctype = ''audio''),
      localVideoRef = None, remoteVideoRef = None,
      peerRef = None, callStatus = ''Connecting...'', trace = []\<rparr>"

text \<open>
  \<open>createPeer\<close> calls \<open>new SimplePeer\<close>, registers the four handlers and stores the peer
  in \<open>peerRef\<close>. The constructor is the one call in it that can throw; \<open>thrown\<close> is its
  outcome. A throw leaves \<open>createPeer\<close> before anything is registered or stored.
\<close>

definition createPeer ::
    "media_stream \<Rightarrow> bool \<Rightarrow> peer_error option \<Rightarrow> call_session
       \<Rightarrow> (peer_error \<times> call_session) + call_session" where
  "createPeer st ini thrown s =
     (let s1 = s\<lparr>trace := trace s @ [Peer_new ini (stream_id st)]\<rparr> in
      case thrown of
        Some e \<Rightarrow> Inl (e, s1)
      | None \<Rightarrow>
          Inr (s1\<lparr>peerRef := Some \<lparr>initiator = ini, trickle = True, stream = stream_id st\<rparr>\<rparr>))"

text \<open>
  \<open>initializeCall\<close> is split at its \<open>await\<close>. The call asks for the media and suspends;
  other handlers may run before the request settles. \<open>initializeCall_settled\<close> is the
  continuation: \<open>gum\<close> is the outcome of \<open>getUserMedia\<close> (\<open>Inl\<close> the rejection, \<open>Inr\<close> the
  stream) and \<open>thrown\<close> that of the peer's constructor. Both failures are inside the
  \<open>try\<close> and reach the same \<open>catch\<close>, \<open>initializeCall_catch\<close>; what was set before the throw
  stays set.
\<close>

definition initializeCall :: "call_session \<Rightarrow> call_session" where
  "initializeCall s = s\<lparr>trace := trace s @ [Get_user_media (callType s = ''video'')]\<rparr>"

definition initializeCall_catch :: "call_session \<Rightarrow> call_session" where
  "initializeCall_catch s =
     s\<lparr>trace := trace s @ [Console_error ''Failed to get media stream:''],
       callStatus := ''Failed to access camera/microphone''\<rparr>"

definition initializeCall_settled ::
    "media_error + media_stream \<Rightarrow> peer_error option \<Rightarrow> call_session \<Rightarrow> call_session" where
  "initializeCall_settled gum thrown s =
     (case gum of
        Inr st \<Rightarrow>
          (let s1 = s\<lparr>localStream := Some st\<rparr>;
               s2 = (case localVideoRef s1 of
                       None \<Rightarrow> s1
                     | Some _ \<Rightarrow> s1\<lparr>localVideoRef := Some (Some (stream_id st))\<rparr>)
           in case createPeer st True thrown s2 of
                Inr s3 \<Rightarrow> s3\<lparr>callStatus := ''Calling...''\<rparr>
              | Inl (e, s3) \<Rightarrow> initializeCall_catch s3)
      | Inl e \<Rightarrow> initializeCall_catch s)"

text \<open>The handlers \<open>createPeer\<close> registers on the peer; \<open>ini\<close> is the \<open>initiator\<close> flag
  their closure captured.\<close>

definition peer_on_signal :: "bool \<Rightarrow> signal_data \<Rightarrow> call_session \<Rightarrow> call_session" where
  "peer_on_signal ini sig s =
     (case socket s of
        None \<Rightarrow> s
      | Some _ \<Rightarrow>
          s\<lparr>trace := trace s @
               [Socket_emit_call_user (recipientId s) sig (if ini then ''offer'' else ''answer'')]\<rparr>)"

definition peer_on_stream :: "media_stream \<Rightarrow> call_session \<Rightarrow> call_session" where
  "peer_on_stream rs s =
     (let s1 = s\<lparr>remoteStream := Some rs\<rparr>;
          s2 = (case remoteVideoRef s1 of
                  None \<Rightarrow> s1
                | Some _ \<Rightarrow> s1\<lparr>remoteVideoRef := Some (Some (stream_id rs))\<rparr>)
      in s2\<lparr>callStatus := ''Connected''\<rparr>)"

definition peer_on_error :: "call_session \<Rightarrow> call_session" where
  "peer_on_error s =
     s\<lparr>trace := trace s @ [Console_error ''Peer error:''],
       callStatus := ''Connection error''\<rparr>"

definition handleIncomingCall ::
    "'a incoming_call_payload_scheme \<Rightarrow> call_session \<Rightarrow> call_session" where
  "handleIncomingCall p s =
     (if ic_from_user_id p = recipientId s \<and> peerRef s \<noteq> None
      then s\<lparr>trace := trace s @ [Peer_signal (ic_signal p)]\<rparr>
      else s)"

definition handleCallAccepted ::
    "'a call_accepted_payload_scheme \<Rightarrow> call_session \<Rightarrow> call_session" where
  "handleCallAccepted p s =
     (if peerRef s \<noteq> None
      then s\<lparr>trace := trace s @ [Peer_signal (ca_signal p)]\<rparr>
      else s)"

definition handleIceCandidate ::
    "'a ice_candidate_payload_scheme \<Rightarrow> call_session \<Rightarrow> call_session" where
  "handleIceCandidate p s =
     (case candidate p of
        None \<Rightarrow> s
      | Some c \<Rightarrow>
          if peerRef s \<noteq> None \<and> c \<noteq> []
          then s\<lparr>trace := trace s @ [Peer_signal c]\<rparr>
          else s)"

definition getAudioTracks :: "media_stream \<Rightarrow> track list" where
  "getAudioTracks st = filter (\<lambda>t. kind t = AudioTrack) (tracks st)"

definition getVideoTracks :: "media_stream \<Rightarrow> track list" where
  "getVideoTracks st = filter (\<lambda>t. kind t = VideoTrack) (tracks st)"

text \<open>
  The three socket handlers read the prop \<open>recipientId\<close> and the ref \<open>peerRef\<close>, which
  are the same in every render, so they are functions of the current session.

  The \<open>forEach\<close> of the toggles writes \<open>enabled\<close> on the track objects of one kind; the
  stream keeps its tracks in place. The toggles are bound to buttons and run in the
  closure of the latest render, so \<open>isMuted\<close> and \<open>localStream\<close> are the current ones.
\<close>

definition flip_enabled :: "track_kind \<Rightarrow> media_stream \<Rightarrow> media_stream" where
  "flip_enabled k st =
     st\<lparr>tracks := map (\<lambda>t. if kind t = k then t\<lparr>enabled := \<not> enabled t\<rparr> else t) (tracks st)\<rparr>"

definition toggleMute :: "call_session \<Rightarrow> call_session" where
  "toggleMute s =
     (case localStream s of
        None \<Rightarrow> s
      | Some st \<Rightarrow> s\<lparr>localStream := Some (flip_enabled AudioTrack st), isMuted := \<not> isMuted s\<rparr>)"

definition toggleVideo :: "call_session \<Rightarrow> call_session" where
  "toggleVideo s =
     (case localStream s of
        None \<Rightarrow> s
      | Some st \<Rightarrow>
          if callType s = ''video''
          then s\<lparr>localStream := Some (flip_enabled VideoTrack st), isVideoOff := \<not> isVideoOff s\<rparr>
          else s)"

text \<open>
  \<open>cleanup\<close> reads \<open>localStream\<close> from the render whose closure it belongs to, and
  \<open>peerRef.current\<close> from the ref. Its first argument is that captured \<open>localStream\<close>: the
  current one for the end-call button (\<open>hangup\<close>), and \<open>null\<close> for the two closures made
  by the first render, where the state cell still holds its initial value: the
  unmount effect (\<open>unmount\<close>) and the peer's close handler (\<open>peer_on_close\<close>), which
  \<open>createPeer\<close> registers while \<open>initializeCall\<close> of the first render runs.
\<close>

definition cleanup :: "media_stream option \<Rightarrow> call_session \<Rightarrow> call_session" where
  "cleanup ls s =
     (let s1 = (case ls of
                  None \<Rightarrow> s
                | Some st \<Rightarrow> s\<lparr>trace := trace s @ map (\<lambda>t. Track_stop (track_id t)) (tracks st)\<rparr>)
      in case peerRef s1 of
           None \<Rightarrow> s1
         | Some _ \<Rightarrow> s1\<lparr>trace := trace s1 @ [Peer_destroy]\<rparr>)"

definition endCall :: "media_stream option \<Rightarrow> call_session \<Rightarrow> call_session" where
  "endCall ls s = (let s1 = cleanup ls s in s1\<lparr>trace := trace s1 @ [On_end]\<rparr>)"

definition hangup :: "call_session \<Rightarrow> call_session" where
  "hangup s = endCall (localStream s) s"

definition peer_on_close :: "call_session \<Rightarrow> call_session" where
  "peer_on_close s = endCall None s"

definition unmount :: "call_session \<Rightarrow> call_session" where
  "unmount s = cleanup None s"

text \<open>How often the trace holds a given call.\<close>

definition calls :: "call_effect \<Rightarrow> call_session \<Rightarrow> nat" where
  "calls e s = length (filter (\<lambda>x. x = e) (trace s))"

section \<open>Conversation sync: the Messages component\<close>

text \<open>
  The component that owns the message log of the open thread, the input text and the
  socket. Its \<open>async\<close> functions are split where they \<open>await\<close>: the part that runs when
  the function is called, and the part that runs when the awaited REST request settles,
  with the outcome of the request as an argument. Other handlers may run in between.
\<close>

subsection \<open>Data\<close>

text \<open>
  The text of a message is a JavaScript string, held as its UTF-16 code units, since
  \<open>trim\<close> inspects them. The other strings (ids, timestamps, status lines) are only
  compared and stored. \<open>ascii\<close> gives the code units of an ASCII literal.
\<close>

type_synonym js_string = "nat list"

definition ascii :: "string \<Rightarrow> js_string" where
  "ascii cs = map of_char cs"

record message =
  msg_id :: string
  from_user_id :: string
  to_user_id :: string
  content :: js_string
  created_at :: string

datatype rest_error = Network_error | Http_error nat

datatype chat_effect =
    Socket_emit_send_message string js_string
  | Axios_post_messages string js_string
  | Axios_get_conversations
  | Axios_get_messages string
  | Axios_get_users_search string
  | Toast_error string

text \<open>The two clock reads of \<open>sendMessage\<close>: \<open>Date.now().toString()\<close> and
  \<open>new Date().toISOString()\<close>.\<close>

record clock =
  date_now :: string
  date_iso :: string

text \<open>
  \<open>user_id\<close> is \<open>user.id\<close> of the props, \<open>userId\<close> the route parameter (\<open>None\<close> when the
  route has none), \<open>msg_socket\<close> the \<open>socket\<close> state cell.
\<close>

record chat =
  user_id :: string
  userId :: "string option"
  messages :: "message list"
  newMessage :: js_string
  msg_socket :: "sock option"
  chat_trace :: "chat_effect list"

subsection \<open>Operations\<close>

text \<open>
  \<open>String.prototype.trim\<close> removes, at both ends, the code units of ECMAScript's
  \<open>WhiteSpace\<close> and \<open>LineTerminator\<close>: TAB, LF, VT, FF, CR, SPACE, NBSP (U+00A0), U+1680,
  U+2000 to U+200A, U+2028, U+2029, U+202F, U+205F, U+3000 and U+FEFF. All of them lie
  in the basic plane, so each is one code unit.
\<close>

definition is_js_space :: "nat \<Rightarrow> bool" where
  "is_js_space c =
     (c = 0x09 \<or> c = 0x0A \<or> c = 0x0B \<or> c = 0x0C \<or> c = 0x0D \<or> c = 0x20 \<or> c = 0xA0
      \<or> c = 0x1680 \<or> (0x2000 \<le> c \<and> c \<le> 0x200A) \<or> c = 0x2028 \<or> c = 0x2029
      \<or> c = 0x202F \<or> c = 0x205F \<or> c = 0x3000 \<or> c = 0xFEFF)"

definition js_trim :: "js_string \<Rightarrow> js_string" where
  "js_trim xs = rev (dropWhile is_js_space (rev (dropWhile is_js_space xs)))"

definition socket_connected :: "sock option \<Rightarrow> bool" where
  "socket_connected so = (case so of None \<Rightarrow> False | Some k \<Rightarrow> connected k)"

definition loadConversations :: "chat \<Rightarrow> chat" where
  "loadConversations s = s\<lparr>chat_trace := chat_trace s @ [Axios_get_conversations]\<rparr>"

text \<open>\<open>loadMessages\<close>: the request, and the continuation of its \<open>await\<close>. The
  continuation writes the response into the log; it reads neither \<open>partnerId\<close> nor the
  current \<open>userId\<close>.\<close>

definition loadMessages :: "string \<Rightarrow> chat \<Rightarrow> chat" where
  "loadMessages partnerId s = s\<lparr>chat_trace := chat_trace s @ [Axios_get_messages partnerId]\<rparr>"

definition loadMessages_settled :: "string \<Rightarrow> rest_error + message list \<Rightarrow> chat \<Rightarrow> chat" where
  "loadMessages_settled partnerId res s =
     (case res of
        Inr data \<Rightarrow> s\<lparr>messages := data\<rparr>
      | Inl e \<Rightarrow> s\<lparr>chat_trace := chat_trace s @ [Toast_error ''Failed to load messages'']\<rparr>)"

definition loadSelectedUser :: "string \<Rightarrow> chat \<Rightarrow> chat" where
  "loadSelectedUser partnerId s =
     s\<lparr>chat_trace := chat_trace s @ [Axios_get_users_search partnerId]\<rparr>"

text \<open>The route changes to \<open>uid\<close> and the effect on \<open>[userId]\<close> runs.\<close>

definition useEffect_userId :: "string option \<Rightarrow> chat \<Rightarrow> chat" where
  "useEffect_userId uid s =
     (let s1 = s\<lparr>userId := uid\<rparr> in
      case uid of
        None \<Rightarrow> s1
      | Some u \<Rightarrow> if u = [] then s1 else loadSelectedUser u (loadMessages u s1))"

definition provisional :: "clock \<Rightarrow> string \<Rightarrow> string \<Rightarrow> js_string \<Rightarrow> message" where
  "provisional clk me u c =
     \<lparr>msg_id = date_now clk, from_user_id = me, to_user_id = u, content = c,
      created_at = date_iso clk\<rparr>"

text \<open>
  The statements of \<open>sendMessage\<close> after the \<open>if\<close>/\<open>else\<close> of its \<open>try\<close> block. \<open>cl\<close> is the
  render the call was made in: \<open>messages\<close>, \<open>newMessage\<close> and \<open>user\<close> are read from that
  closure, while the setters act on the state current when they run.
\<close>

definition sendMessage_appended :: "chat \<Rightarrow> string \<Rightarrow> clock \<Rightarrow> chat \<Rightarrow> chat" where
  "sendMessage_appended cl u clk s =
     loadConversations
       (s\<lparr>messages := messages cl @ [provisional clk (user_id cl) u (newMessage cl)],
          newMessage := []\<rparr>)"

datatype send_progress = Returned chat | Awaiting_post string chat

text \<open>The call of \<open>sendMessage\<close> up to its return or its \<open>await\<close>.\<close>

definition sendMessage_called :: "clock \<Rightarrow> chat \<Rightarrow> send_progress" where
  "sendMessage_called clk s =
     (if js_trim (newMessage s) = [] then Returned s
      else case userId s of
        None \<Rightarrow> Returned s
      | Some u \<Rightarrow>
          if u = [] then Returned s
          else if socket_connected (msg_socket s)
          then Returned
                 (sendMessage_appended s u clk
                    (s\<lparr>chat_trace := chat_trace s @ [Socket_emit_send_message u (newMessage s)]\<rparr>))
          else Awaiting_post u
                 (s\<lparr>chat_trace := chat_trace s @ [Axios_post_messages u (newMessage s)]\<rparr>))"

text \<open>The continuation once the REST write has settled: the rest of the \<open>try\<close> block, or
  the \<open>catch\<close>.\<close>

definition sendMessage_settled ::
    "chat \<Rightarrow> string \<Rightarrow> rest_error + unit \<Rightarrow> clock \<Rightarrow> chat \<Rightarrow> chat" where
  "sendMessage_settled cl u res clk s =
     (case res of
        Inr _ \<Rightarrow> sendMessage_appended cl u clk s
      | Inl e \<Rightarrow> s\<lparr>chat_trace := chat_trace s @ [Toast_error ''Failed to send message'']\<rparr>)"

text \<open>\<open>sendMessage\<close> run to its end with no other handler in between; \<open>res\<close> is the
  outcome of the REST write, if one is made.\<close>

definition sendMessage :: "rest_error + unit \<Rightarrow> clock \<Rightarrow> chat \<Rightarrow> chat" where
  "sendMessage res clk s =
     (case sendMessage_called clk s of
        Returned s' \<Rightarrow> s'
      | Awaiting_post u s' \<Rightarrow> sendMessage_settled s u res clk s')"

text \<open>A message belongs to the thread with \<open>p\<close> when \<open>p\<close> is its sender or its recipient.\<close>

definition in_thread :: "string \<Rightarrow> message \<Rightarrow> bool" where
  "in_thread p m = (from_user_id m = p \<or> to_user_id m = p)"

section \<open>Concrete sessions\<close>

definition cam :: media_stream where
  "cam = \<lparr>stream_id = 1,
          tracks = [\<lparr>track_id = 1, kind = AudioTrack, enabled = True\<rparr>,
                    \<lparr>track_id = 2, kind = VideoTrack, enabled = True\<rparr>]\<rparr>"

definition ringing_bob :: call_session where
  "ringing_bob = mount ''bob'' ''video'' (Some \<lparr>connected = True\<rparr>)"

definition calling_bob :: call_session where
  "calling_bob = initializeCall_settled (Inr cam) None (initializeCall ringing_bob)"

definition at_noon :: clock where
  "at_noon = \<lparr>date_now = ''1700000000000'', date_iso = ''2023-11-14T22:13:20.000Z''\<rparr>"

definition from_alice :: message where
  "from_alice = \<lparr>msg_id = ''m1'', from_user_id = ''alice'', to_user_id = ''me'',
                 content = ascii ''hello from alice'', created_at = ''2023-11-14T10:02:00.000Z''\<rparr>"

definition from_bob :: message where
  "from_bob = \<lparr>msg_id = ''m2'', from_user_id = ''bob'', to_user_id = ''me'',
               content = ascii ''hello from bob'', created_at = ''2023-11-14T10:05:00.000Z''\<rparr>"

definition inbox :: chat where
  "inbox = \<lparr>user_id = ''me'', userId = None, messages = [], newMessage = [],
            msg_socket = Some \<lparr>connected = True\<rparr>, chat_trace = []\<rparr>"

definition typing_online :: chat where
  "typing_online = inbox\<lparr>userId := Some ''bob'', messages := [from_bob], newMessage := ascii ''hi''\<rparr>"

definition typing_offline :: chat where
  "typing_offline = typing_online\<lparr>msg_socket := Some \<lparr>connected = False\<rparr>\<rparr>"

section \<open>Properties of the call session\<close>

lemmas session_defs =
  calling_bob_def ringing_bob_def cam_def initializeCall_def initializeCall_settled_def
  initializeCall_catch_def createPeer_def mount_def

subsection \<open>Hanging up\<close>

text \<open>What one \<open>endCall\<close> adds to the trace; every other component of the session is
  left as it was.\<close>

lemma endCall_appends:
  "endCall ls s =
     s\<lparr>trace := trace s
         @ (case ls of None \<Rightarrow> [] | Some st \<Rightarrow> map (\<lambda>t. Track_stop (track_id t)) (tracks st))
         @ (case peerRef s of None \<Rightarrow> [] | Some _ \<Rightarrow> [Peer_destroy])
         @ [On_end]\<rparr>"
  by (simp add: endCall_def cleanup_def split: option.split)

lemma cleanup_appends:
  "cleanup ls s =
     s\<lparr>trace := trace s
         @ (case ls of None \<Rightarrow> [] | Some st \<Rightarrow> map (\<lambda>t. Track_stop (track_id t)) (tracks st))
         @ (case peerRef s of None \<Rightarrow> [] | Some _ \<Rightarrow> [Peer_destroy])\<rparr>"
  by (simp add: cleanup_def split: option.split)

text \<open>
  C1 fails on the code. \<open>cleanup\<close> is written to stop the local tracks, and from the
  end-call button it does: one \<open>stop()\<close> per track, then \<open>destroy()\<close> and \<open>onEnd\<close>. The
  peer's close handler and the unmount effect call the \<open>cleanup\<close> of the first render,
  whose \<open>localStream\<close> is still null. In a call to bob that holds a camera stream of
  two tracks, when the peer closes and the parent then unmounts the component, the
  peer is destroyed and \<open>onEnd\<close> is called, and no track is ever stopped; the same holds
  when the component is unmounted without the button having been pressed. After a
  press of the button, the close event and the unmount leave each track stopped once.
\<close>

theorem peer_close_stops_no_track:
  "localStream calling_bob = Some cam
   \<and> map track_id (tracks cam) = [1, 2]
   \<and> peer_on_close calling_bob = calling_bob\<lparr>trace := trace calling_bob @ [Peer_destroy, On_end]\<rparr>
   \<and> unmount (peer_on_close calling_bob)
       = calling_bob\<lparr>trace := trace calling_bob @ [Peer_destroy, On_end, Peer_destroy]\<rparr>
   \<and> calls (Track_stop 1) (unmount (peer_on_close calling_bob)) = 0
   \<and> calls (Track_stop 2) (unmount (peer_on_close calling_bob)) = 0
   \<and> unmount calling_bob = calling_bob\<lparr>trace := trace calling_bob @ [Peer_destroy]\<rparr>
   \<and> hangup calling_bob
       = calling_bob\<lparr>trace := trace calling_bob @ [Track_stop 1, Track_stop 2, Peer_destroy, On_end]\<rparr>
   \<and> calls (Track_stop 1) (unmount (peer_on_close (hangup calling_bob))) = 1
   \<and> calls (Track_stop 2) (unmount (peer_on_close (hangup calling_bob))) = 1"
proof -
  have st: "localStream calling_bob = Some cam"
    and pr: "peerRef calling_bob = Some \<lparr>initiator = True, trickle = True, stream = 1\<rparr>"
    and tr: "trace calling_bob = [Get_user_media True, Peer_new True 1]"
    by (simp_all add: session_defs)
  have ids: "map track_id (tracks cam) = [1, 2]"
    by (simp add: cam_def)
  have closed: "peer_on_close calling_bob
      = calling_bob\<lparr>trace := trace calling_bob @ [Peer_destroy, On_end]\<rparr>"
    by (simp add: peer_on_close_def endCall_appends pr)
  have gone: "unmount (peer_on_close calling_bob)
      = calling_bob\<lparr>trace := trace calling_bob @ [Peer_destroy, On_end, Peer_destroy]\<rparr>"
    by (simp add: closed unmount_def cleanup_appends pr)
  have none: "calls (Track_stop 1) (unmount (peer_on_close calling_bob)) = 0"
      "calls (Track_stop 2) (unmount (peer_on_close calling_bob)) = 0"
    by (simp_all add: gone calls_def tr)
  have away: "unmount calling_bob = calling_bob\<lparr>trace := trace calling_bob @ [Peer_destroy]\<rparr>"
    by (simp add: unmount_def cleanup_appends pr)
  have button: "hangup calling_bob
      = calling_bob\<lparr>trace := trace calling_bob @ [Track_stop 1, Track_stop 2, Peer_destroy, On_end]\<rparr>"
    by (simp add: hangup_def endCall_appends st pr) (simp add: cam_def)
  have once: "calls (Track_stop 1) (unmount (peer_on_close (hangup calling_bob))) = 1"
      "calls (Track_stop 2) (unmount (peer_on_close (hangup calling_bob))) = 1"
    by (simp_all add: button peer_on_close_def unmount_def endCall_appends cleanup_appends
          calls_def pr tr)
  from st ids closed gone none away button once show ?thesis by blast
qed

subsection \<open>Inbound signals\<close>

text \<open>
  C2, as the code has it. An \<open>incoming_call\<close> from the session's counterpart is fed into
  the peer when a peer exists. When none exists the event is ignored: the session is
  returned as it was, so no peer is constructed (in Responder role or any other) and
  the descriptor is fed nowhere.
\<close>

theorem incoming_call_fed_only_to_existing_peer:
  "(ic_from_user_id p = recipientId s \<and> peerRef s = Some pr \<longrightarrow>
      handleIncomingCall p s = s\<lparr>trace := trace s @ [Peer_signal (ic_signal p)]\<rparr>)
   \<and> (peerRef s = None \<longrightarrow> handleIncomingCall p s = s)"
  by (simp add: handleIncomingCall_def)

theorem incoming_call_fed_only_to_existing_peer_witness:
  "(ic_from_user_id \<lparr>ic_signal = ''offer-sdp'', ic_from_user_id = ''bob''\<rparr> = recipientId calling_bob
    \<and> peerRef calling_bob = Some \<lparr>initiator = True, trickle = True, stream = 1\<rparr>
    \<and> handleIncomingCall \<lparr>ic_signal = ''offer-sdp'', ic_from_user_id = ''bob''\<rparr> calling_bob
        = calling_bob\<lparr>trace := trace calling_bob @ [Peer_signal ''offer-sdp'']\<rparr>)
   \<and> (peerRef ringing_bob = None
    \<and> handleIncomingCall \<lparr>ic_signal = ''offer-sdp'', ic_from_user_id = ''bob''\<rparr> ringing_bob = ringing_bob)"
proof -
  have h1: "ic_from_user_id \<lparr>ic_signal = ''offer-sdp'', ic_from_user_id = ''bob''\<rparr> = recipientId calling_bob"
    and h2: "peerRef calling_bob = Some \<lparr>initiator = True, trickle = True, stream = 1\<rparr>"
    by (simp_all add: session_defs)
  have h3: "peerRef ringing_bob = None"
    by (simp add: ringing_bob_def mount_def)
  from incoming_call_fed_only_to_existing_peer
         [of "\<lparr>ic_signal = ''offer-sdp'', ic_from_user_id = ''bob''\<rparr>" calling_bob
             "\<lparr>initiator = True, trickle = True, stream = 1\<rparr>"]
       incoming_call_fed_only_to_existing_peer
         [of "\<lparr>ic_signal = ''offer-sdp'', ic_from_user_id = ''bob''\<rparr>" ringing_bob]
       h1 h2 h3
  show ?thesis by simp
qed

text \<open>
  C2, as stated, fails. A freshly mounted session for bob has no peer; an
  \<open>incoming_call\<close> from bob leaves it without one and feeds the offer to nothing.
\<close>

theorem incoming_call_no_responder_counterexample:
  "ic_from_user_id \<lparr>ic_signal = ''offer-sdp'', ic_from_user_id = ''bob''\<rparr> = recipientId ringing_bob
   \<and> peerRef ringing_bob = None
   \<and> peerRef (handleIncomingCall \<lparr>ic_signal = ''offer-sdp'', ic_from_user_id = ''bob''\<rparr> ringing_bob) = None
   \<and> trace (handleIncomingCall \<lparr>ic_signal = ''offer-sdp'', ic_from_user_id = ''bob''\<rparr> ringing_bob) = []"
  by (simp add: handleIncomingCall_def ringing_bob_def mount_def)

text \<open>
  C3, as the code has it. An \<open>ice_candidate\<close> event that arrives while no peer exists
  raises nothing, and is dropped: the session is returned as it was, with no record of
  the candidate. So is an event whose candidate is absent or the empty string. A truthy
  candidate that arrives while a peer exists is fed into it.
\<close>

theorem ice_candidate_needs_peer:
  "(peerRef s = None \<longrightarrow> handleIceCandidate p s = s)
   \<and> (candidate p = None \<longrightarrow> handleIceCandidate p s = s)
   \<and> (candidate p = Some [] \<longrightarrow> handleIceCandidate p s = s)
   \<and> (peerRef s = Some pr \<and> candidate p = Some c \<and> c \<noteq> [] \<longrightarrow>
        handleIceCandidate p s = s\<lparr>trace := trace s @ [Peer_signal c]\<rparr>)"
  by (simp add: handleIceCandidate_def split: option.split)

theorem ice_candidate_needs_peer_witness:
  "(peerRef ringing_bob = None
    \<and> handleIceCandidate \<lparr>candidate = Some ''cand-1''\<rparr> ringing_bob = ringing_bob)
   \<and> handleIceCandidate \<lparr>candidate = None\<rparr> calling_bob = calling_bob
   \<and> handleIceCandidate \<lparr>candidate = Some []\<rparr> calling_bob = calling_bob
   \<and> (peerRef calling_bob = Some \<lparr>initiator = True, trickle = True, stream = 1\<rparr>
    \<and> ''cand-1'' \<noteq> []
    \<and> handleIceCandidate \<lparr>candidate = Some ''cand-1''\<rparr> calling_bob
        = calling_bob\<lparr>trace := trace calling_bob @ [Peer_signal ''cand-1'']\<rparr>)"
proof -
  have h1: "peerRef ringing_bob = None"
    by (simp add: ringing_bob_def mount_def)
  have h2: "peerRef calling_bob = Some \<lparr>initiator = True, trickle = True, stream = 1\<rparr>"
    by (simp add: session_defs)
  from ice_candidate_needs_peer [of ringing_bob "\<lparr>candidate = Some ''cand-1''\<rparr>"]
       ice_candidate_needs_peer [of calling_bob "\<lparr>candidate = None\<rparr>"]
       ice_candidate_needs_peer [of calling_bob "\<lparr>candidate = Some []\<rparr>"]
       ice_candidate_needs_peer [of calling_bob "\<lparr>candidate = Some ''cand-1''\<rparr>"
          "\<lparr>initiator = True, trickle = True, stream = 1\<rparr>" "''cand-1''"]
       h1 h2
  show ?thesis by simp
qed

text \<open>
  C3, as stated, fails. A candidate that reaches the session for bob while it waits
  for the media, before any peer exists, leaves it as it was; when the stream is then
  acquired, the peer created and bob's descriptor applied, the session is the one it
  would have been without the candidate, and the candidate was never fed into the
  peer.
\<close>

theorem early_ice_candidate_dropped_counterexample:
  "peerRef (initializeCall ringing_bob) = None
   \<and> handleIceCandidate \<lparr>candidate = Some ''cand-1''\<rparr> (initializeCall ringing_bob)
       = initializeCall ringing_bob
   \<and> handleIncomingCall \<lparr>ic_signal = ''sdp'', ic_from_user_id = ''bob''\<rparr>
       (initializeCall_settled (Inr cam) None
          (handleIceCandidate \<lparr>candidate = Some ''cand-1''\<rparr> (initializeCall ringing_bob)))
     = handleIncomingCall \<lparr>ic_signal = ''sdp'', ic_from_user_id = ''bob''\<rparr> calling_bob
   \<and> Peer_signal ''cand-1'' \<notin> set (trace
       (handleIncomingCall \<lparr>ic_signal = ''sdp'', ic_from_user_id = ''bob''\<rparr>
          (initializeCall_settled (Inr cam) None
             (handleIceCandidate \<lparr>candidate = Some ''cand-1''\<rparr> (initializeCall ringing_bob)))))"
  by (simp add: handleIceCandidate_def handleIncomingCall_def session_defs)

text \<open>
  C7. An \<open>incoming_call\<close> whose \<open>from_user_id\<close> is not the session's \<open>recipientId\<close> is
  ignored: the handler returns the session as it was, so nothing is fed into the peer
  (the trace is the same), no state cell changes, and no error is raised or recorded.
\<close>

theorem incoming_call_other_sender_ignored:
  "ic_from_user_id p \<noteq> recipientId s \<Longrightarrow> handleIncomingCall p s = s"
  by (simp add: handleIncomingCall_def)

theorem incoming_call_other_sender_ignored_witness:
  "ic_from_user_id \<lparr>ic_signal = ''sdp'', ic_from_user_id = ''carol''\<rparr>
     \<noteq> recipientId calling_bob
   \<and> handleIncomingCall \<lparr>ic_signal = ''sdp'', ic_from_user_id = ''carol''\<rparr>
        calling_bob
     = calling_bob"
proof -
  have h: "ic_from_user_id \<lparr>ic_signal = ''sdp'', ic_from_user_id = ''carol''\<rparr>
     \<noteq> recipientId calling_bob"
    by (simp add: session_defs)
  from h incoming_call_other_sender_ignored [OF h] show ?thesis by simp
qed


text \<open>
  C10. While a peer exists, every \<open>call_accepted\<close> event has its signal fed into it.
  The handler reads nothing but \<open>signal\<close>: two payloads with the same signal are handled
  alike whatever else they carry, so no sender and no addressing is checked.
\<close>

theorem call_accepted_fed_unchecked:
  fixes p :: "'a call_accepted_payload_scheme" and q :: "'b call_accepted_payload_scheme"
  assumes "peerRef s = Some pr"
  shows "handleCallAccepted p s = s\<lparr>trace := trace s @ [Peer_signal (ca_signal p)]\<rparr>
         \<and> (ca_signal q = ca_signal p \<longrightarrow> handleCallAccepted q s = handleCallAccepted p s)"
  using assms by (simp add: handleCallAccepted_def)

theorem call_accepted_fed_unchecked_witness:
  "peerRef calling_bob = Some \<lparr>initiator = True, trickle = True, stream = 1\<rparr>
   \<and> ca_from_user_id \<lparr>ca_signal = ''answer-sdp'', ca_from_user_id = ''mallory''\<rparr> \<noteq> recipientId calling_bob
   \<and> handleCallAccepted \<lparr>ca_signal = ''answer-sdp'', ca_from_user_id = ''mallory''\<rparr> calling_bob
       = calling_bob\<lparr>trace := trace calling_bob @ [Peer_signal ''answer-sdp'']\<rparr>
   \<and> handleCallAccepted \<lparr>ca_signal = ''answer-sdp''\<rparr> calling_bob
       = handleCallAccepted \<lparr>ca_signal = ''answer-sdp'', ca_from_user_id = ''mallory''\<rparr> calling_bob
   \<and> handleIncomingCall \<lparr>ic_signal = ''answer-sdp'', ic_from_user_id = ''mallory''\<rparr> calling_bob
       = calling_bob"
proof -
  have h: "peerRef calling_bob = Some \<lparr>initiator = True, trickle = True, stream = 1\<rparr>"
    by (simp add: session_defs)
  have r: "recipientId calling_bob = ''bob''"
    by (simp add: session_defs)
  from call_accepted_fed_unchecked [OF h,
      of "\<lparr>ca_signal = ''answer-sdp'', ca_from_user_id = ''mallory''\<rparr>" "\<lparr>ca_signal = ''answer-sdp''\<rparr>"] h r
  show ?thesis by (simp add: handleIncomingCall_def)
qed

subsection \<open>Starting a call\<close>



subsection \<open>Muting\<close>

lemma flip_enabled_twice: "flip_enabled k (flip_enabled k st) = st"
proof -
  have "map ((\<lambda>t. if kind t = k then t\<lparr>enabled := \<not> enabled t\<rparr> else t) \<circ>
             (\<lambda>t. if kind t = k then t\<lparr>enabled := \<not> enabled t\<rparr> else t)) (tracks st) = tracks st"
    by (rule map_idI) simp
  then show ?thesis by (simp add: flip_enabled_def)
qed

lemma audio_tracks_flipped:
  "map enabled (getAudioTracks (flip_enabled AudioTrack st)) = map (\<lambda>t. \<not> enabled t) (getAudioTracks st)"
  unfolding getAudioTracks_def flip_enabled_def
  by (induction "tracks st" arbitrary: st) (auto simp: filter_map o_def)

lemma other_tracks_kept:
  "getVideoTracks (flip_enabled AudioTrack st) = getVideoTracks st"
proof -
  have "filter (\<lambda>t. kind t = VideoTrack)
          (map (\<lambda>t. if kind t = AudioTrack then t\<lparr>enabled := \<not> enabled t\<rparr> else t) ts)
        = filter (\<lambda>t. kind t = VideoTrack) ts" for ts :: "track list"
    by (induction ts) auto
  then show ?thesis by (simp add: getVideoTracks_def flip_enabled_def)
qed

text \<open>
  C8. Two \<open>toggleMute\<close> in succession give back the session they started from, so every
  track has its original \<open>enabled\<close> flag and \<open>isMuted\<close>, false at the start of a call, is
  false again. With a local stream, one toggle negates \<open>enabled\<close> on each audio track,
  leaves the video tracks alone, negates \<open>isMuted\<close>, and changes neither the trace (no
  signal is sent, the peer is not touched) nor \<open>callStatus\<close>.
\<close>

theorem toggleMute_twice_identity:
  "toggleMute (toggleMute s) = s
   \<and> (isMuted s = False \<longrightarrow> isMuted (toggleMute (toggleMute s)) = False)
   \<and> (localStream s = Some st \<longrightarrow>
        localStream (toggleMute s) = Some (flip_enabled AudioTrack st)
        \<and> map enabled (getAudioTracks (flip_enabled AudioTrack st))
            = map (\<lambda>t. \<not> enabled t) (getAudioTracks st)
        \<and> getVideoTracks (flip_enabled AudioTrack st) = getVideoTracks st
        \<and> isMuted (toggleMute s) = (\<not> isMuted s)
        \<and> trace (toggleMute s) = trace s
        \<and> callStatus (toggleMute s) = callStatus s
        \<and> peerRef (toggleMute s) = peerRef s)"
proof -
  have twice: "toggleMute (toggleMute s) = s"
    by (cases "localStream s") (simp_all add: toggleMute_def flip_enabled_twice)
  show ?thesis
    using twice by (simp add: toggleMute_def audio_tracks_flipped other_tracks_kept)
qed

theorem toggleMute_twice_identity_witness:
  "isMuted calling_bob = False \<and> localStream calling_bob = Some cam
   \<and> toggleMute (toggleMute calling_bob) = calling_bob
   \<and> isMuted (toggleMute (toggleMute calling_bob)) = False
   \<and> isMuted (toggleMute calling_bob) = True
   \<and> map enabled (getAudioTracks cam) = [True]
   \<and> map enabled (getAudioTracks (flip_enabled AudioTrack cam)) = [False]"
proof -
  have h1: "isMuted calling_bob = False" and h2: "localStream calling_bob = Some cam"
    by (simp_all add: session_defs)
  have a: "map enabled (getAudioTracks cam) = [True]"
    by (simp add: cam_def getAudioTracks_def)
  have b: "map (\<lambda>t. \<not> enabled t) (getAudioTracks cam) = [False]"
    by (simp add: cam_def getAudioTracks_def)
  from toggleMute_twice_identity [of calling_bob cam] h1 h2 a b show ?thesis by simp
qed

section \<open>Properties of conversation sync\<close>

lemmas chat_defs =
  inbox_def typing_online_def typing_offline_def at_noon_def from_alice_def from_bob_def


subsection \<open>Switching threads\<close>

lemma useEffect_userId_keeps_log: "messages (useEffect_userId uid s) = messages s"
  by (simp add: useEffect_userId_def loadMessages_def loadSelectedUser_def Let_def split: option.split)

lemma loadMessages_settled_ok: "loadMessages_settled p (Inr d) s = s\<lparr>messages := d\<rparr>"
  by (simp add: loadMessages_settled_def)

text \<open>
  C4, as the code has it. A thread load that resolves replaces the log wholesale with
  its response, whichever thread it was started for and whichever thread is open by
  then; switching the thread does not clear the log. So after a switch from \<open>a\<close> to
  \<open>b\<close> the log is \<open>b\<close>'s response, and holds only \<open>b\<close>'s messages when the response does,
  in the interleavings where \<open>b\<close>'s load is the last to resolve (the load for \<open>a\<close> resolving
  before or after the switch). A load for \<open>a\<close> that resolves after \<open>b\<close>'s is applied like any
  other: the log is then \<open>a\<close>'s response.
\<close>

theorem thread_load_replaces_log:
  "loadMessages_settled p (Inr d) s = s\<lparr>messages := d\<rparr>
   \<and> messages (useEffect_userId uid s) = messages s
   \<and> messages (loadMessages_settled b (Inr db) (loadMessages_settled a (Inr da)
        (useEffect_userId (Some b) (useEffect_userId (Some a) s)))) = db
   \<and> messages (loadMessages_settled b (Inr db) (useEffect_userId (Some b)
        (loadMessages_settled a (Inr da) (useEffect_userId (Some a) s)))) = db
   \<and> messages (loadMessages_settled a (Inr da) (loadMessages_settled b (Inr db)
        (useEffect_userId (Some b) (useEffect_userId (Some a) s)))) = da
   \<and> ((\<forall>m \<in> set db. in_thread b m) \<longrightarrow>
        (\<forall>m \<in> set (messages (loadMessages_settled b (Inr db) (loadMessages_settled a (Inr da)
            (useEffect_userId (Some b) (useEffect_userId (Some a) s))))). in_thread b m))"
  by (simp add: loadMessages_settled_ok useEffect_userId_keeps_log)

theorem thread_load_replaces_log_witness:
  "in_thread ''bob'' from_bob
   \<and> messages (loadMessages_settled ''bob'' (Inr [from_bob]) (loadMessages_settled ''alice'' (Inr [from_alice])
        (useEffect_userId (Some ''bob'') (useEffect_userId (Some ''alice'') inbox)))) = [from_bob]
   \<and> list_all (in_thread ''bob'')
        (messages (loadMessages_settled ''bob'' (Inr [from_bob]) (loadMessages_settled ''alice'' (Inr [from_alice])
           (useEffect_userId (Some ''bob'') (useEffect_userId (Some ''alice'') inbox)))))"
proof -
  have h: "\<forall>m \<in> set [from_bob]. in_thread ''bob'' m"
    by (simp add: in_thread_def from_bob_def)
  from thread_load_replaces_log
         [where s = inbox and b = "''bob''" and db = "[from_bob]" and a = "''alice''" and da = "[from_alice]"] h
  show ?thesis by (simp add: list_all_iff)
qed

text \<open>
  C4, as stated, fails. The user opens the thread with alice, then the thread with
  bob; bob's load resolves first and alice's second. The open thread is bob's and the
  log holds alice's message.
\<close>

theorem stale_thread_load_counterexample:
  "userId (loadMessages_settled ''alice'' (Inr [from_alice]) (loadMessages_settled ''bob'' (Inr [from_bob])
        (useEffect_userId (Some ''bob'') (useEffect_userId (Some ''alice'') inbox)))) = Some ''bob''
   \<and> messages (loadMessages_settled ''alice'' (Inr [from_alice]) (loadMessages_settled ''bob'' (Inr [from_bob])
        (useEffect_userId (Some ''bob'') (useEffect_userId (Some ''alice'') inbox)))) = [from_alice]
   \<and> \<not> in_thread ''bob'' from_alice
   \<and> chat_trace (loadMessages_settled ''alice'' (Inr [from_alice]) (loadMessages_settled ''bob'' (Inr [from_bob])
        (useEffect_userId (Some ''bob'') (useEffect_userId (Some ''alice'') inbox))))
      = [Axios_get_messages ''alice'', Axios_get_users_search ''alice'',
         Axios_get_messages ''bob'', Axios_get_users_search ''bob'']"
  by (simp add: loadMessages_settled_def useEffect_userId_def loadMessages_def loadSelectedUser_def
        in_thread_def chat_defs)

subsection \<open>Sending\<close>

lemma sendMessage_appended_eq:
  "sendMessage_appended cl u clk s =
     s\<lparr>messages := messages cl @
          [\<lparr>msg_id = date_now clk, from_user_id = user_id cl, to_user_id = u,
            content = newMessage cl, created_at = date_iso clk\<rparr>],
       newMessage := [],
       chat_trace := chat_trace s @ [Axios_get_conversations]\<rparr>"
  by (simp add: sendMessage_appended_def provisional_def loadConversations_def)

text \<open>
  C6, as the code has it. Content that is empty once trimmed sends nothing. Otherwise,
  with a thread selected: when the socket is connected, the call emits \<open>send_message\<close>
  and in the same step appends the provisional message (id and timestamp read from
  the clock, the user's id as sender, the thread's id as recipient, the content),
  clears the input and reloads the conversations. When it is not connected, the call
  issues the REST write and suspends with the log as it was; the provisional message is
  appended by the continuation of a write that succeeded, and a write that failed
  appends nothing.
\<close>

theorem sendMessage_paths:
  "(js_trim (newMessage s) = [] \<longrightarrow> sendMessage_called clk s = Returned s)
   \<and> (js_trim (newMessage s) \<noteq> [] \<and> userId s = Some u \<and> u \<noteq> [] \<longrightarrow>
        (socket_connected (msg_socket s) \<longrightarrow>
           sendMessage_called clk s = Returned
             (s\<lparr>messages := messages s @
                  [\<lparr>msg_id = date_now clk, from_user_id = user_id s, to_user_id = u,
                    content = newMessage s, created_at = date_iso clk\<rparr>],
                newMessage := [],
                chat_trace := chat_trace s @
                  [Socket_emit_send_message u (newMessage s), Axios_get_conversations]\<rparr>))
        \<and> (\<not> socket_connected (msg_socket s) \<longrightarrow>
           sendMessage_called clk s = Awaiting_post u
             (s\<lparr>chat_trace := chat_trace s @ [Axios_post_messages u (newMessage s)]\<rparr>)
           \<and> sendMessage_settled s u (Inr ()) clk s' =
               s'\<lparr>messages := messages s @
                    [\<lparr>msg_id = date_now clk, from_user_id = user_id s, to_user_id = u,
                      content = newMessage s, created_at = date_iso clk\<rparr>],
                  newMessage := [],
                  chat_trace := chat_trace s' @ [Axios_get_conversations]\<rparr>
           \<and> messages (sendMessage_settled s u (Inl e) clk s') = messages s'))"
  by (simp add: sendMessage_called_def sendMessage_settled_def sendMessage_appended_eq)

theorem sendMessage_paths_witness:
  "(js_trim (newMessage typing_online) \<noteq> [] \<and> userId typing_online = Some ''bob'' \<and> ''bob'' \<noteq> []
    \<and> socket_connected (msg_socket typing_online)
    \<and> sendMessage_called at_noon typing_online = Returned
        (typing_online\<lparr>messages := [from_bob,
             \<lparr>msg_id = ''1700000000000'', from_user_id = ''me'', to_user_id = ''bob'',
              content = ascii ''hi'', created_at = ''2023-11-14T22:13:20.000Z''\<rparr>],
           newMessage := [],
           chat_trace := [Socket_emit_send_message ''bob'' (ascii ''hi''), Axios_get_conversations]\<rparr>))
   \<and> (js_trim (newMessage typing_offline) \<noteq> [] \<and> userId typing_offline = Some ''bob''
    \<and> \<not> socket_connected (msg_socket typing_offline)
    \<and> sendMessage_called at_noon typing_offline = Awaiting_post ''bob''
        (typing_offline\<lparr>chat_trace := [Axios_post_messages ''bob'' (ascii ''hi'')]\<rparr>))
   \<and> (js_trim (newMessage inbox) = [] \<and> sendMessage_called at_noon inbox = Returned inbox)"
proof -
  have on: "js_trim (newMessage typing_online) \<noteq> []" "userId typing_online = Some ''bob''"
      "socket_connected (msg_socket typing_online)"
    by (simp_all add: chat_defs js_trim_def is_js_space_def socket_connected_def ascii_def)
  have off: "js_trim (newMessage typing_offline) \<noteq> []" "userId typing_offline = Some ''bob''"
      "\<not> socket_connected (msg_socket typing_offline)"
    by (simp_all add: chat_defs js_trim_def is_js_space_def socket_connected_def ascii_def)
  have none: "js_trim (newMessage inbox) = []"
    by (simp add: chat_defs js_trim_def)
  have vals: "messages typing_online = [from_bob]" "newMessage typing_online = ascii ''hi''"
      "chat_trace typing_online = []" "user_id typing_online = ''me''"
      "newMessage typing_offline = ascii ''hi''" "chat_trace typing_offline = []"
    by (simp_all add: typing_online_def typing_offline_def inbox_def)
  from sendMessage_paths [of typing_online at_noon "''bob''"]
       sendMessage_paths [of typing_offline at_noon "''bob''"]
       sendMessage_paths [of inbox at_noon]
       on off none vals
  show ?thesis by (simp add: at_noon_def)
qed

text \<open>
  C6, as stated, fails. Offline, with \<open>hi\<close> typed for bob, the call issues the REST write
  and suspends without having appended anything, and when the write fails the log is
  never appended to. Online, content made of a space and a no-break space is not
  empty, and nothing is sent or appended.
\<close>

theorem sendMessage_rest_path_counterexample:
  "newMessage typing_offline = ascii ''hi'' \<and> userId typing_offline = Some ''bob''
   \<and> \<not> socket_connected (msg_socket typing_offline)
   \<and> sendMessage_called at_noon typing_offline
       = Awaiting_post ''bob'' (typing_offline\<lparr>chat_trace := [Axios_post_messages ''bob'' (ascii ''hi'')]\<rparr>)
   \<and> messages (sendMessage (Inl Network_error) at_noon typing_offline) = messages typing_offline
   \<and> newMessage (typing_online\<lparr>newMessage := [0x20, 0xA0]\<rparr>) \<noteq> []
   \<and> sendMessage (Inr ()) at_noon (typing_online\<lparr>newMessage := [0x20, 0xA0]\<rparr>)
       = typing_online\<lparr>newMessage := [0x20, 0xA0]\<rparr>"
  by (simp add: sendMessage_def sendMessage_called_def sendMessage_settled_def js_trim_def
        is_js_space_def socket_connected_def chat_defs ascii_def)

text \<open>
  C9. With valid input (content not empty once trimmed, a thread selected): when the
  socket is not connected and the REST write fails, \<open>sendMessage\<close> leaves the log and
  the input text as they were; the session differs from the one before the call only
  by the attempted write and the error toast, and the \<open>catch\<close> itself adds only the
  toast to whatever the state is when the write fails. When the socket is connected
  the provisional message is appended and the input cleared, whatever a REST write
  would have returned, since none is made.
\<close>

theorem sendMessage_failure_atomic:
  assumes "js_trim (newMessage s) \<noteq> []" and "userId s = Some u" and "u \<noteq> []"
  shows "(\<not> socket_connected (msg_socket s) \<longrightarrow>
            sendMessage (Inl e) clk s
              = s\<lparr>chat_trace := chat_trace s @
                    [Axios_post_messages u (newMessage s), Toast_error ''Failed to send message'']\<rparr>
            \<and> messages (sendMessage (Inl e) clk s) = messages s
            \<and> newMessage (sendMessage (Inl e) clk s) = newMessage s
            \<and> sendMessage_settled s u (Inl e) clk s'
                = s'\<lparr>chat_trace := chat_trace s' @ [Toast_error ''Failed to send message'']\<rparr>)
         \<and> (socket_connected (msg_socket s) \<longrightarrow>
            messages (sendMessage res clk s) = messages s @
                  [\<lparr>msg_id = date_now clk, from_user_id = user_id s, to_user_id = u,
                    content = newMessage s, created_at = date_iso clk\<rparr>]
            \<and> newMessage (sendMessage res clk s) = []
            \<and> chat_trace (sendMessage res clk s) = chat_trace s @
                  [Socket_emit_send_message u (newMessage s), Axios_get_conversations])"
  using assms
  by (simp add: sendMessage_def sendMessage_called_def sendMessage_settled_def sendMessage_appended_eq)

theorem sendMessage_failure_atomic_witness:
  "(js_trim (newMessage typing_offline) \<noteq> [] \<and> userId typing_offline = Some ''bob'' \<and> ''bob'' \<noteq> []
    \<and> \<not> socket_connected (msg_socket typing_offline)
    \<and> sendMessage (Inl Network_error) at_noon typing_offline
        = typing_offline\<lparr>chat_trace :=
            [Axios_post_messages ''bob'' (ascii ''hi''), Toast_error ''Failed to send message'']\<rparr>
    \<and> messages (sendMessage (Inl Network_error) at_noon typing_offline) = [from_bob]
    \<and> newMessage (sendMessage (Inl Network_error) at_noon typing_offline) = ascii ''hi'')
   \<and> (js_trim (newMessage typing_online) \<noteq> [] \<and> userId typing_online = Some ''bob''
    \<and> socket_connected (msg_socket typing_online)
    \<and> messages (sendMessage (Inl Network_error) at_noon typing_online)
        = [from_bob, \<lparr>msg_id = ''1700000000000'', from_user_id = ''me'', to_user_id = ''bob'',
              content = ascii ''hi'', created_at = ''2023-11-14T22:13:20.000Z''\<rparr>])"
proof -
  have on: "js_trim (newMessage typing_online) \<noteq> []" "userId typing_online = Some ''bob''"
      "socket_connected (msg_socket typing_online)"
    by (simp_all add: chat_defs js_trim_def is_js_space_def socket_connected_def ascii_def)
  have off: "js_trim (newMessage typing_offline) \<noteq> []" "userId typing_offline = Some ''bob''"
      "\<not> socket_connected (msg_socket typing_offline)"
    by (simp_all add: chat_defs js_trim_def is_js_space_def socket_connected_def ascii_def)
  have b: "''bob'' \<noteq> []" by simp
  have vals: "messages typing_online = [from_bob]" "newMessage typing_online = ascii ''hi''"
      "chat_trace typing_online = []" "user_id typing_online = ''me''"
      "newMessage typing_offline = ascii ''hi''" "chat_trace typing_offline = []"
      "messages typing_offline = [from_bob]"
    by (simp_all add: typing_online_def typing_offline_def inbox_def)
  from sendMessage_failure_atomic [OF off(1) off(2) b, of Network_error at_noon]
       sendMessage_failure_atomic [OF on(1) on(2) b, of _ at_noon _ "Inl Network_error"]
       on off vals
  show ?thesis by (simp add: at_noon_def)
qed

end
